theory Spec2Isabelle
  imports Main "HOL-Library.Monad_Syntax"
begin

section \<open>The documentation build configuration (conf.py)\<close>

text \<open>
  The repository is one Python module, \<^verbatim>\<open>conf.py\<close>, that the documentation
  generator executes once: every top-level statement binds one name of the module
  namespace to a literal. The module is embedded as the list of its assignments in source
  order; executing it is explicit state passing over the namespace.
\<close>

subsection \<open>Python values and the module namespace\<close>

datatype pyval =
    Str string
  | Bool bool
  | NoneVal
  | ListV "pyval list"
  | TupleV "pyval list"
  | DictV "(pyval \<times> pyval) list"

type_synonym namespace = "string \<rightharpoonup> pyval"

text \<open>One assignment statement \<^verbatim>\<open>x = v\<close>: the target name and the literal.\<close>

type_synonym assignment = "string \<times> pyval"

definition assign :: "namespace \<Rightarrow> assignment \<Rightarrow> namespace" where
  "assign ns a = ns(fst a \<mapsto> snd a)"

definition exec_module :: "assignment list \<Rightarrow> namespace \<Rightarrow> namespace" where
  "exec_module body ns = foldl assign ns body"

subsection \<open>The module body, statement by statement\<close>

definition conf_py :: "assignment list" where
  "conf_py =
    [ (''project'', Str ''Model Context Protocol (MCP) Python SDK''),
      (''copyright'', Str ''2023, Model Context Protocol''),
      (''author'', Str ''Model Context Protocol''),
      (''extensions'', ListV
          [ Str ''sphinx.ext.autodoc'',
            Str ''sphinx.ext.viewcode'',
            Str ''sphinx.ext.napoleon'' ]),
      (''templates_path'', ListV [Str ''_templates'']),
      (''exclude_patterns'', ListV [Str ''_build'', Str ''Thumbs.db'', Str ''.DS_Store'']),
      (''html_theme'', Str ''sphinx_rtd_theme''),
      (''html_static_path'', ListV [Str ''_static'']),
      (''html_use_directory_rtd_theme'', Bool True),
      (''html_extra_path'', ListV [Str ''.nojekyll'']),
      (''master_doc'', Str ''index''),
      (''html_copy_source'', Bool False),
      (''html_baseurl'', Str ''/mcp_docs/''),
      (''html_css_files'', ListV [Str ''custom.css'']),
      (''extlinks'', DictV
          [ (Str ''github'',
               TupleV [Str ''https://github.com/modelcontextprotocol/python-sdk/blob/main/%s'',
                       Str ''%s'']),
            (Str ''spec'',
               TupleV [Str ''https://modelcontextprotocol.io/%s'', Str ''%s'']) ]),
      (''intersphinx_mapping'', DictV
          [ (Str ''python'', TupleV [Str ''https://docs.python.org/3'', NoneVal]),
            (Str ''starlette'', TupleV [Str ''https://www.starlette.io/'', NoneVal]) ]) ]"

definition conf :: "namespace \<Rightarrow> namespace" where
  "conf ns = exec_module conf_py ns"

subsection \<open>BuildConfig: the typed view of the namespace\<close>

record BuildConfig =
  project :: string
  copyright :: string
  author :: string
  extensions :: "string list"
  templatesPath :: "string list"
  staticPath :: "string list"
  extraPaths :: "string list"
  excludePatterns :: "string list"
  theme :: string
  baseUrl :: string
  cssFiles :: "string list"
  extLinks :: "(string \<times> string \<times> string) list"
  intersphinxMapping :: "(string \<times> string \<times> string option) list"

text \<open>
  Reading a value at the type the data model gives its field. A value of another shape
  is a failed read (\<open>None\<close>).
\<close>

fun as_str :: "pyval \<Rightarrow> string option" where
  "as_str (Str s) = Some s"
| "as_str _ = None"

fun as_str_list :: "pyval \<Rightarrow> string list option" where
  "as_str_list (ListV vs) = those (map as_str vs)"
| "as_str_list _ = None"

fun as_link :: "pyval \<times> pyval \<Rightarrow> (string \<times> string \<times> string) option" where
  "as_link (Str tag, TupleV [Str url, Str label]) = Some (tag, url, label)"
| "as_link _ = None"

fun as_inventory :: "pyval \<times> pyval \<Rightarrow> (string \<times> string \<times> string option) option" where
  "as_inventory (Str name, TupleV [Str base, NoneVal]) = Some (name, base, None)"
| "as_inventory (Str name, TupleV [Str base, Str path]) = Some (name, base, Some path)"
| "as_inventory _ = None"

fun as_dict :: "(pyval \<times> pyval \<Rightarrow> 'a option) \<Rightarrow> pyval \<Rightarrow> 'a list option" where
  "as_dict rd (DictV kvs) = those (map rd kvs)"
| "as_dict rd _ = None"

definition read_field :: "namespace \<Rightarrow> string \<Rightarrow> (pyval \<Rightarrow> 'a option) \<Rightarrow> 'a option" where
  "read_field g x rd = (case g x of None \<Rightarrow> None | Some v \<Rightarrow> rd v)"

text \<open>
  Modelled from the spec: the BuildConfig type of section 3 and the read into it, which
  the source does not declare. The read takes the thirteen fields of the data model from
  a namespace at their types; it fails (\<open>None\<close>) when a field is unbound or has another
  shape.
\<close>

definition build_config :: "namespace \<Rightarrow> BuildConfig option" where
  "build_config g =
     do {
       v_project \<leftarrow> read_field g ''project'' as_str;
       v_copyright \<leftarrow> read_field g ''copyright'' as_str;
       v_author \<leftarrow> read_field g ''author'' as_str;
       v_extensions \<leftarrow> read_field g ''extensions'' as_str_list;
       v_templates \<leftarrow> read_field g ''templates_path'' as_str_list;
       v_static \<leftarrow> read_field g ''html_static_path'' as_str_list;
       v_extra \<leftarrow> read_field g ''html_extra_path'' as_str_list;
       v_exclude \<leftarrow> read_field g ''exclude_patterns'' as_str_list;
       v_theme \<leftarrow> read_field g ''html_theme'' as_str;
       v_baseurl \<leftarrow> read_field g ''html_baseurl'' as_str;
       v_css \<leftarrow> read_field g ''html_css_files'' as_str_list;
       v_extlinks \<leftarrow> read_field g ''extlinks'' (as_dict as_link);
       v_intersphinx \<leftarrow> read_field g ''intersphinx_mapping'' (as_dict as_inventory);
       Some \<lparr> project = v_project, copyright = v_copyright, author = v_author,
              extensions = v_extensions, templatesPath = v_templates,
              staticPath = v_static, extraPaths = v_extra,
              excludePatterns = v_exclude, theme = v_theme, baseUrl = v_baseurl,
              cssFiles = v_css, extLinks = v_extlinks,
              intersphinxMapping = v_intersphinx \<rparr>
     }"

text \<open>
  "Load configuration" (section 4.1): the module is executed on the namespace the
  consuming tool supplies, and the configuration is read from the result.
\<close>

definition load :: "namespace \<Rightarrow> BuildConfig option" where
  "load ns = build_config (conf ns)"

subsection \<open>Link templates\<close>

text \<open>
  The substitution placeholder of a link template is the two characters \<^verbatim>\<open>%s\<close>.
  \<open>count_placeholder\<close> counts its occurrences from left to right; \<open>substitute\<close> puts
  the argument in the place of each occurrence.
\<close>

fun count_placeholder :: "string \<Rightarrow> nat" where
  "count_placeholder (c # d # cs) =
     (if c = CHR ''%'' \<and> d = CHR ''s'' then Suc (count_placeholder cs)
      else count_placeholder (d # cs))"
| "count_placeholder _ = 0"

fun substitute :: "string \<Rightarrow> string \<Rightarrow> string" where
  "substitute (c # d # cs) a =
     (if c = CHR ''%'' \<and> d = CHR ''s'' then a @ substitute cs a
      else c # substitute (d # cs) a)"
| "substitute cs a = cs"

text \<open>
  Modelled from the spec: the expansion of a shorthand reference, done by the consuming
  tool and absent from the repository. Section 3 gives each template a single
  substitution placeholder, section 7 makes a malformed placeholder a fatal
  LinkTemplateError, and the scenario of section 8 puts the argument in the place of the
  placeholder, in the URL template and in the label template alike.
\<close>

datatype link_error = UnknownTag | LinkTemplateError

definition expand :: "string \<Rightarrow> string \<Rightarrow> link_error + string" where
  "expand template a =
     (if count_placeholder template = 1 then Inr (substitute template a)
      else Inl LinkTemplateError)"

definition resolve ::
  "(string \<times> string \<times> string) list \<Rightarrow> string \<Rightarrow> string \<Rightarrow> link_error + (string \<times> string)"
where
  "resolve links tag a =
     (case map_of links tag of
        None \<Rightarrow> Inl UnknownTag
      | Some (url_template, label_template) \<Rightarrow>
          (case expand url_template a of
             Inl e \<Rightarrow> Inl e
           | Inr url \<Rightarrow>
               (case expand label_template a of
                  Inl e \<Rightarrow> Inl e
                | Inr label \<Rightarrow> Inr (url, label))))"

subsection \<open>Cross-project inventories\<close>

text \<open>
  Modelled from the spec: where the consuming tool takes the inventory of a
  cross-project entry from; the tool is not part of the repository. Section 3: an
  inventory path of \<open>None\<close> means that the inventory is fetched from the base URL;
  section 8: for the base URL \<^verbatim>\<open>https://docs.python.org/3\<close> it is fetched from
  \<^verbatim>\<open>https://docs.python.org/3/objects.inv\<close>.
\<close>

definition inventory_location :: "string \<Rightarrow> string option \<Rightarrow> string" where
  "inventory_location base inventory =
     (case inventory of None \<Rightarrow> base @ ''/objects.inv'' | Some path \<Rightarrow> path)"

subsection \<open>Exclusion patterns\<close>

text \<open>
  Modelled from the spec: the matching of a glob pattern against a path relative to the
  configuration's directory, done by the consuming tool and absent from the repository
  (section 3: glob patterns naming the files and directories ignored during the build).
  \<^verbatim>\<open>*\<close> stands for any run of characters other than the separator, \<^verbatim>\<open>?\<close> for one
  such character, every other character for itself, and the pattern covers the whole
  path. A pattern excludes a path when it matches the path or a directory above it.
\<close>

fun glob_match :: "string \<Rightarrow> string \<Rightarrow> bool" where
  "glob_match [] [] = True"
| "glob_match [] (c # cs) = False"
| "glob_match (p # ps) [] = (p = CHR ''*'' \<and> glob_match ps [])"
| "glob_match (p # ps) (c # cs) =
     (if p = CHR ''*'' then glob_match ps (c # cs) \<or> (c \<noteq> CHR ''/'' \<and> glob_match (p # ps) cs)
      else if p = CHR ''?'' then c \<noteq> CHR ''/'' \<and> glob_match ps cs
      else p = c \<and> glob_match ps cs)"

text \<open>The directories above a path: its prefixes that end before a separator.\<close>

fun ancestors :: "string \<Rightarrow> string list" where
  "ancestors [] = []"
| "ancestors (c # cs) =
     (if c = CHR ''/'' then [[]] else []) @ map ((#) c) (ancestors cs)"

definition excludes :: "string \<Rightarrow> string \<Rightarrow> bool" where
  "excludes pat path = (glob_match pat path \<or> list_ex (glob_match pat) (ancestors path))"

subsection \<open>URLs and root paths\<close>

text \<open>
  The syntax of an absolute URL after RFC 3986: a scheme (a letter, then letters, digits,
  \<^verbatim>\<open>+\<close>, \<^verbatim>\<open>-\<close>, \<^verbatim>\<open>.\<close>), \<^verbatim>\<open>://\<close>, a non-empty host with an optional
  port, and a remainder of URL characters only.
\<close>

definition is_alpha :: "char \<Rightarrow> bool" where
  "is_alpha c = (c \<in> set ''abcdefghijklmnopqrstuvwxyzABCDEFGHIJKLMNOPQRSTUVWXYZ'')"

definition is_digit :: "char \<Rightarrow> bool" where
  "is_digit c = (c \<in> set ''0123456789'')"

definition is_unreserved :: "char \<Rightarrow> bool" where
  "is_unreserved c = (is_alpha c \<or> is_digit c \<or> c \<in> set ''-._~'')"

definition is_url_char :: "char \<Rightarrow> bool" where
  "is_url_char c = (is_unreserved c \<or> c \<in> set '':/?#[]@!$&()*+,;=%'')"

definition valid_url :: "string \<Rightarrow> bool" where
  "valid_url s =
     (let scheme = takeWhile (\<lambda>c. c \<noteq> CHR '':'') s;
          rest = dropWhile (\<lambda>c. c \<noteq> CHR '':'') s;
          host = takeWhile (\<lambda>c. c \<notin> set ''/?#'') (drop 3 rest);
          remainder = dropWhile (\<lambda>c. c \<notin> set ''/?#'') (drop 3 rest)
      in (case scheme of [] \<Rightarrow> False | c # _ \<Rightarrow> is_alpha c)
         \<and> list_all (\<lambda>c. is_alpha c \<or> is_digit c \<or> c \<in> set ''+-.'') scheme
         \<and> take 3 rest = ''://''
         \<and> host \<noteq> []
         \<and> list_all (\<lambda>c. is_unreserved c \<or> c = CHR '':'') host
         \<and> list_all is_url_char remainder)"

text \<open>A root path starts at the root of the host: its first character is the separator.\<close>

definition root_path :: "string \<Rightarrow> bool" where
  "root_path s = (case s of [] \<Rightarrow> False | c # _ \<Rightarrow> c = CHR ''/'')"

subsection \<open>The module as statements over expressions\<close>


datatype expr =
    StrE string
  | BoolE bool
  | NoneE
  | NameE string
  | ListE "expr list"
  | TupleE "expr list"
  | DictE "(expr \<times> expr) list"






text \<open>
  Statements: the assignment \<^verbatim>\<open>x = e\<close>, of which the module consists, and the two
  updates in place that Python has for a list and for a dict, \<^verbatim>\<open>x.append(e)\<close> and
  \<^verbatim>\<open>x[k] = e\<close>. The module contains neither update; they are what a holder of the
  namespace can execute on it after the load. \<^verbatim>\<open>append\<close> exists on a list only
  (\<^verbatim>\<open>AttributeError\<close> on every other object); item assignment is supported by a dict,
  under a hashable key, and not by a string, a tuple, a boolean or \<^verbatim>\<open>None\<close>
  (\<^verbatim>\<open>TypeError\<close>); the index of a list must be an integer, and the values of this
  module hold none (\<^verbatim>\<open>TypeError\<close>). An update is written back under the name it goes
  through, which is what Python does to an object that has one name, as every object of
  this module has.
\<close>

datatype stmt =
    Assign string expr
  | Append string expr
  | SetItem string expr expr



fun target :: "stmt \<Rightarrow> string" where
  "target (Assign x e) = x"
| "target (Append x e) = x"
| "target (SetItem x k e) = x"




section \<open>What the module binds\<close>

lemma conf_unfold:
  "conf ns = ns
     (''project'' \<mapsto> Str ''Model Context Protocol (MCP) Python SDK'',
      ''copyright'' \<mapsto> Str ''2023, Model Context Protocol'',
      ''author'' \<mapsto> Str ''Model Context Protocol'',
      ''extensions'' \<mapsto> ListV
          [ Str ''sphinx.ext.autodoc'',
            Str ''sphinx.ext.viewcode'',
            Str ''sphinx.ext.napoleon'' ],
      ''templates_path'' \<mapsto> ListV [Str ''_templates''],
      ''exclude_patterns'' \<mapsto> ListV [Str ''_build'', Str ''Thumbs.db'', Str ''.DS_Store''],
      ''html_theme'' \<mapsto> Str ''sphinx_rtd_theme'',
      ''html_static_path'' \<mapsto> ListV [Str ''_static''],
      ''html_use_directory_rtd_theme'' \<mapsto> Bool True,
      ''html_extra_path'' \<mapsto> ListV [Str ''.nojekyll''],
      ''master_doc'' \<mapsto> Str ''index'',
      ''html_copy_source'' \<mapsto> Bool False,
      ''html_baseurl'' \<mapsto> Str ''/mcp_docs/'',
      ''html_css_files'' \<mapsto> ListV [Str ''custom.css''],
      ''extlinks'' \<mapsto> DictV
          [ (Str ''github'',
               TupleV [Str ''https://github.com/modelcontextprotocol/python-sdk/blob/main/%s'',
                       Str ''%s'']),
            (Str ''spec'',
               TupleV [Str ''https://modelcontextprotocol.io/%s'', Str ''%s'']) ],
      ''intersphinx_mapping'' \<mapsto> DictV
          [ (Str ''python'', TupleV [Str ''https://docs.python.org/3'', NoneVal]),
            (Str ''starlette'', TupleV [Str ''https://www.starlette.io/'', NoneVal]) ])"
  unfolding conf_def exec_module_def conf_py_def assign_def
  by (simp only: foldl.simps fst_conv snd_conv)

lemma conf_project: "conf ns ''project'' = Some (Str ''Model Context Protocol (MCP) Python SDK'')"
  by (simp add: conf_unfold)

lemma conf_copyright: "conf ns ''copyright'' = Some (Str ''2023, Model Context Protocol'')"
  by (simp add: conf_unfold)

lemma conf_author: "conf ns ''author'' = Some (Str ''Model Context Protocol'')"
  by (simp add: conf_unfold)

lemma conf_extensions:
  "conf ns ''extensions'' =
     Some (ListV [Str ''sphinx.ext.autodoc'', Str ''sphinx.ext.viewcode'',
                  Str ''sphinx.ext.napoleon''])"
  by (simp add: conf_unfold)

lemma conf_templates_path: "conf ns ''templates_path'' = Some (ListV [Str ''_templates''])"
  by (simp add: conf_unfold)

lemma conf_exclude_patterns:
  "conf ns ''exclude_patterns'' =
     Some (ListV [Str ''_build'', Str ''Thumbs.db'', Str ''.DS_Store''])"
  by (simp add: conf_unfold)

lemma conf_html_theme: "conf ns ''html_theme'' = Some (Str ''sphinx_rtd_theme'')"
  by (simp add: conf_unfold)

lemma conf_html_static_path: "conf ns ''html_static_path'' = Some (ListV [Str ''_static''])"
  by (simp add: conf_unfold)

lemma conf_html_extra_path: "conf ns ''html_extra_path'' = Some (ListV [Str ''.nojekyll''])"
  by (simp add: conf_unfold)

lemma conf_html_baseurl: "conf ns ''html_baseurl'' = Some (Str ''/mcp_docs/'')"
  by (simp add: conf_unfold)

lemma conf_html_css_files: "conf ns ''html_css_files'' = Some (ListV [Str ''custom.css''])"
  by (simp add: conf_unfold)

lemma conf_extlinks:
  "conf ns ''extlinks'' =
     Some (DictV
       [ (Str ''github'',
            TupleV [Str ''https://github.com/modelcontextprotocol/python-sdk/blob/main/%s'',
                    Str ''%s'']),
         (Str ''spec'', TupleV [Str ''https://modelcontextprotocol.io/%s'', Str ''%s'']) ])"
  by (simp add: conf_unfold)

lemma conf_intersphinx_mapping:
  "conf ns ''intersphinx_mapping'' =
     Some (DictV
       [ (Str ''python'', TupleV [Str ''https://docs.python.org/3'', NoneVal]),
         (Str ''starlette'', TupleV [Str ''https://www.starlette.io/'', NoneVal]) ])"
  by (simp add: conf_unfold)

lemmas conf_lookups =
  conf_project conf_copyright conf_author conf_extensions conf_templates_path
  conf_exclude_patterns conf_html_theme conf_html_static_path conf_html_extra_path
  conf_html_baseurl conf_html_css_files conf_extlinks conf_intersphinx_mapping

lemma load_eq:
  "load ns = Some
     \<lparr> project = ''Model Context Protocol (MCP) Python SDK'',
       copyright = ''2023, Model Context Protocol'',
       author = ''Model Context Protocol'',
       extensions = [''sphinx.ext.autodoc'', ''sphinx.ext.viewcode'', ''sphinx.ext.napoleon''],
       templatesPath = [''_templates''],
       staticPath = [''_static''],
       extraPaths = [''.nojekyll''],
       excludePatterns = [''_build'', ''Thumbs.db'', ''.DS_Store''],
       theme = ''sphinx_rtd_theme'',
       baseUrl = ''/mcp_docs/'',
       cssFiles = [''custom.css''],
       extLinks =
         [ (''github'',
              ''https://github.com/modelcontextprotocol/python-sdk/blob/main/%s'', ''%s''),
           (''spec'', ''https://modelcontextprotocol.io/%s'', ''%s'') ],
       intersphinxMapping =
         [ (''python'', ''https://docs.python.org/3'', None),
           (''starlette'', ''https://www.starlette.io/'', None) ] \<rparr>"
  unfolding load_def build_config_def read_field_def
  by (simp add: conf_lookups)

text \<open>The read fails on a namespace in which the module has not been executed.\<close>

lemma build_config_unloaded: "build_config Map.empty = None"
  by (simp add: build_config_def read_field_def)

section \<open>Executing a module\<close>

text \<open>
  After a module body has run, a name holds the literal of the last statement that binds
  it, and a name the body does not bind holds what it held before.
\<close>
lemma exec_module_lookup:
  "exec_module body ns x = (case map_of (rev body) x of None \<Rightarrow> ns x | Some v \<Rightarrow> Some v)"
proof (induction body arbitrary: ns)
  case Nil
  show ?case by (simp add: exec_module_def)
next
  case (Cons a body)
  have "exec_module (a # body) ns x = exec_module body (assign ns a) x"
    by (simp add: exec_module_def)
  also have "\<dots> = (case map_of (rev body) x of None \<Rightarrow> assign ns a x | Some v \<Rightarrow> Some v)"
    by (rule Cons.IH)
  also have "\<dots> = (case map_of (rev (a # body)) x of None \<Rightarrow> ns x | Some v \<Rightarrow> Some v)"
    by (cases a) (simp add: assign_def map_add_def split: option.splits)
  finally show ?case .
qed

lemma exec_module_twice: "exec_module body (exec_module body ns) = exec_module body ns"
  by (rule ext) (simp add: exec_module_lookup split: option.splits)

lemma conf_idempotent: "conf (conf ns) = conf ns"
  by (simp add: conf_def exec_module_twice)

section \<open>The statements of the module\<close>









section \<open>Link templates and exclusion patterns\<close>

lemma count_placeholder_suffix: "0 < count_placeholder (p @ ''%s'')"
  by (induction p rule: count_placeholder.induct) auto

lemma substitute_prefix:
  "count_placeholder (p @ ''%s'') = 1 \<Longrightarrow> substitute (p @ ''%s'') a = p @ a"
proof (induction p rule: count_placeholder.induct)
  case (1 c d cs)
  show ?case
  proof (cases "c = CHR ''%'' \<and> d = CHR ''s''")
    case True
    with "1.prems" have "count_placeholder (cs @ ''%s'') = 0" by simp
    with count_placeholder_suffix [of cs] show ?thesis by simp
  next
    case False
    with "1.prems" have "count_placeholder ((d # cs) @ ''%s'') = 1" by auto
    with False "1.IH"(2) have "substitute ((d # cs) @ ''%s'') a = (d # cs) @ a" by blast
    with False show ?thesis by auto
  qed
qed simp_all

lemma expand_prefix:
  "count_placeholder (p @ ''%s'') = 1 \<Longrightarrow> expand (p @ ''%s'') a = Inr (p @ a)"
  by (simp add: expand_def substitute_prefix)

lemma expand_bare: "expand ''%s'' a = Inr a"
  by (simp add: expand_def)

lemma glob_literal:
  "CHR ''*'' \<notin> set p \<Longrightarrow> CHR ''?'' \<notin> set p \<Longrightarrow> glob_match p s = (p = s)"
  by (induction p s rule: glob_match.induct) auto

lemma ancestors_append: "ancestors (xs @ ys) = ancestors xs @ map ((@) xs) (ancestors ys)"
  by (induction xs) auto

lemma excludes_literal:
  "CHR ''*'' \<notin> set p \<Longrightarrow> CHR ''?'' \<notin> set p \<Longrightarrow> excludes p s = (p = s \<or> p \<in> set (ancestors s))"
  by (auto simp: excludes_def glob_literal list_ex_iff)

section \<open>The claims\<close>




text \<open>
  C9. Loading twice yields the same BuildConfig: two loads, from any two namespaces,
  return the same configuration, and a load succeeds; executing the module again on the
  namespace it has produced changes nothing, and loading from that namespace returns the
  same configuration again.
\<close>

theorem load_twice_identical:
  "load ns = load ns' \<and> load ns \<noteq> None \<and> conf (conf ns) = conf ns
   \<and> load (conf ns) = load ns"
  by (simp add: load_eq conf_idempotent)

text \<open>
  C5. The extensions field is the ordered sequence of exactly three capability
  identifiers: \<^verbatim>\<open>sphinx.ext.autodoc\<close> (API documentation from source comments), then
  \<^verbatim>\<open>sphinx.ext.viewcode\<close> (links to the source code), then
  \<^verbatim>\<open>sphinx.ext.napoleon\<close> (structured docstrings).
\<close>

theorem extensions_three_in_order:
  "conf ns ''extensions'' =
     Some (ListV [Str ''sphinx.ext.autodoc'', Str ''sphinx.ext.viewcode'',
                  Str ''sphinx.ext.napoleon''])
   \<and> (\<exists>cfg. load ns = Some cfg
        \<and> extensions cfg =
            [''sphinx.ext.autodoc'', ''sphinx.ext.viewcode'', ''sphinx.ext.napoleon'']
        \<and> length (extensions cfg) = 3)"
  by (simp add: load_eq conf_extensions)

text \<open>
  C7. The loaded configuration gives the base URL \<^verbatim>\<open>/mcp_docs/\<close>, a root path, for
  the static host, and lists the marker file \<^verbatim>\<open>.nojekyll\<close> among the extra paths.
\<close>

theorem baseurl_and_nojekyll:
  "conf ns ''html_baseurl'' = Some (Str ''/mcp_docs/'')
   \<and> conf ns ''html_extra_path'' = Some (ListV [Str ''.nojekyll''])
   \<and> (\<exists>cfg. load ns = Some cfg
        \<and> baseUrl cfg = ''/mcp_docs/'' \<and> root_path (baseUrl cfg)
        \<and> ''.nojekyll'' \<in> set (extraPaths cfg))"
  by (simp add: load_eq conf_html_baseurl conf_html_extra_path root_path_def)

text \<open>
  C2. For every entry of the extLinks mapping of the loaded configuration, the URL
  template and the label template each contain exactly one substitution placeholder
  \<^verbatim>\<open>%s\<close>.
\<close>

theorem extlinks_one_placeholder:
  "\<exists>cfg. load ns = Some cfg
     \<and> (\<forall>(tag, url, label) \<in> set (extLinks cfg).
          count_placeholder url = 1 \<and> count_placeholder label = 1)"
  by (simp add: load_eq)

theorem extlinks_one_placeholder_witness:
  "\<exists>cfg. load Map.empty = Some cfg
     \<and> (''github'', ''https://github.com/modelcontextprotocol/python-sdk/blob/main/%s'', ''%s'')
          \<in> set (extLinks cfg)
     \<and> count_placeholder ''https://github.com/modelcontextprotocol/python-sdk/blob/main/%s'' = 1
     \<and> count_placeholder ''%s'' = 1"
proof -
  from extlinks_one_placeholder [of Map.empty] obtain cfg where
    l: "load Map.empty = Some cfg" and
    a: "\<forall>(tag, url, label) \<in> set (extLinks cfg).
          count_placeholder url = 1 \<and> count_placeholder label = 1"
    by blast
  from l have m: "(''github'',
      ''https://github.com/modelcontextprotocol/python-sdk/blob/main/%s'', ''%s'')
        \<in> set (extLinks cfg)"
    by (auto simp: load_eq)
  from a m have "count_placeholder
      ''https://github.com/modelcontextprotocol/python-sdk/blob/main/%s'' = 1
      \<and> count_placeholder ''%s'' = 1"
    by blast
  with l m show ?thesis by blast
qed

text \<open>
  C3. Resolving a tag puts the argument in the place of the single placeholder of each
  template. With the one entry \<^verbatim>\<open>github\<close> whose templates are
  \<^verbatim>\<open>https://github.com/org/repo/blob/main/%s\<close> and \<^verbatim>\<open>%s\<close>, the argument
  \<^verbatim>\<open>README.md\<close> resolves to the URL
  \<^verbatim>\<open>https://github.com/org/repo/blob/main/README.md\<close> and the label
  \<^verbatim>\<open>README.md\<close>. In general, for a tag whose templates are a prefix followed by the
  placeholder, and the bare placeholder, the placeholder being the single one of the URL
  template as the data model requires, the argument \<open>a\<close> resolves to the URL
  \<open>prefix @ a\<close> and the label \<open>a\<close>. So do the two tags that the module binds.
\<close>

theorem resolve_substitutes:
  "resolve [(''github'', ''https://github.com/org/repo/blob/main/%s'', ''%s'')]
       ''github'' ''README.md''
     = Inr (''https://github.com/org/repo/blob/main/README.md'', ''README.md'')
   \<and> (map_of links tag = Some (prefix @ ''%s'', ''%s'')
        \<and> count_placeholder (prefix @ ''%s'') = 1
        \<longrightarrow> resolve links tag a = Inr (prefix @ a, a))
   \<and> (\<exists>cfg. load ns = Some cfg
        \<and> resolve (extLinks cfg) ''github'' a
            = Inr (''https://github.com/modelcontextprotocol/python-sdk/blob/main/'' @ a, a)
        \<and> resolve (extLinks cfg) ''spec'' a
            = Inr (''https://modelcontextprotocol.io/'' @ a, a))"
proof -
  have gen: "resolve ls t b = Inr (p @ b, b)"
    if "map_of ls t = Some (p @ ''%s'', ''%s'')" and "count_placeholder (p @ ''%s'') = 1"
    for ls t p b
    using that by (simp add: resolve_def expand_prefix expand_bare)
  have scenario: "resolve [(''github'', ''https://github.com/org/repo/blob/main/%s'', ''%s'')]
       ''github'' ''README.md''
     = Inr (''https://github.com/org/repo/blob/main/README.md'', ''README.md'')"
    using gen [of "[(''github'', ''https://github.com/org/repo/blob/main/%s'', ''%s'')]"
        "''github''" "''https://github.com/org/repo/blob/main/''" "''README.md''"]
    by simp
  have github: "resolve
       [ (''github'',
            ''https://github.com/modelcontextprotocol/python-sdk/blob/main/%s'', ''%s''),
         (''spec'', ''https://modelcontextprotocol.io/%s'', ''%s'') ] ''github'' a
     = Inr (''https://github.com/modelcontextprotocol/python-sdk/blob/main/'' @ a, a)"
    using gen [of _ "''github''"
        "''https://github.com/modelcontextprotocol/python-sdk/blob/main/''" a]
    by simp
  have spec: "resolve
       [ (''github'',
            ''https://github.com/modelcontextprotocol/python-sdk/blob/main/%s'', ''%s''),
         (''spec'', ''https://modelcontextprotocol.io/%s'', ''%s'') ] ''spec'' a
     = Inr (''https://modelcontextprotocol.io/'' @ a, a)"
    using gen [of _ "''spec''" "''https://modelcontextprotocol.io/''" a]
    by simp
  show ?thesis
    using scenario gen [of links tag prefix a] github spec
    by (simp add: load_eq)
qed

theorem resolve_substitutes_witness:
  "map_of [(''github'', ''https://github.com/org/repo/blob/main/%s'', ''%s'')] ''github''
     = Some (''https://github.com/org/repo/blob/main/'' @ ''%s'', ''%s'')
   \<and> count_placeholder (''https://github.com/org/repo/blob/main/'' @ ''%s'') = 1
   \<and> resolve [(''github'', ''https://github.com/org/repo/blob/main/%s'', ''%s'')]
        ''github'' ''README.md''
       = Inr (''https://github.com/org/repo/blob/main/'' @ ''README.md'', ''README.md'')"
  using resolve_substitutes
    [of "[(''github'', ''https://github.com/org/repo/blob/main/%s'', ''%s'')]"
        "''github''" "''https://github.com/org/repo/blob/main/''" "''README.md''" Map.empty]
  by simp

text \<open>
  C4. For every entry of intersphinxMapping whose inventory path is \<open>None\<close>, the
  inventory is taken from the entry's base URL followed by \<^verbatim>\<open>/objects.inv\<close>. Both
  entries that the module binds have the inventory path \<open>None\<close>; the entry
  \<^verbatim>\<open>python\<close> has the base URL \<^verbatim>\<open>https://docs.python.org/3\<close>, and its inventory
  is at \<^verbatim>\<open>https://docs.python.org/3/objects.inv\<close>.
\<close>

theorem inventory_fetched_from_base:
  "\<exists>cfg. load ns = Some cfg
     \<and> (\<forall>(name, base, inventory) \<in> set (intersphinxMapping cfg).
          inventory = None \<longrightarrow> inventory_location base inventory = base @ ''/objects.inv'')
     \<and> map (\<lambda>(name, base, inventory). inventory) (intersphinxMapping cfg) = [None, None]
     \<and> map_of (intersphinxMapping cfg) ''python'' = Some (''https://docs.python.org/3'', None)
     \<and> inventory_location ''https://docs.python.org/3'' None
          = ''https://docs.python.org/3/objects.inv''"
  by (simp add: load_eq inventory_location_def)

theorem inventory_fetched_from_base_witness:
  "\<exists>cfg. load Map.empty = Some cfg
     \<and> (''python'', ''https://docs.python.org/3'', None) \<in> set (intersphinxMapping cfg)
     \<and> inventory_location ''https://docs.python.org/3'' None
          = ''https://docs.python.org/3/objects.inv''"
proof -
  from inventory_fetched_from_base [of Map.empty] obtain cfg where
    l: "load Map.empty = Some cfg" and
    a: "\<forall>(name, base, inventory) \<in> set (intersphinxMapping cfg).
          inventory = None \<longrightarrow> inventory_location base inventory = base @ ''/objects.inv''"
    by blast
  from l have m: "(''python'', ''https://docs.python.org/3'', None)
      \<in> set (intersphinxMapping cfg)"
    by (auto simp: load_eq)
  from a m have "inventory_location ''https://docs.python.org/3'' None
      = ''https://docs.python.org/3'' @ ''/objects.inv''"
    by blast
  with l m show ?thesis by simp
qed

text \<open>
  C6. No pattern of excludePatterns excludes a path listed in templatesPath or in
  staticPath, or any path below one of them: the configuration does not exclude its own
  template and static assets.
\<close>

theorem exclude_patterns_spare_assets:
  "\<exists>cfg. load ns = Some cfg
     \<and> (\<forall>p \<in> set (excludePatterns cfg).
          \<forall>q \<in> set (templatesPath cfg) \<union> set (staticPath cfg).
            \<not> excludes p q \<and> (\<forall>rest. \<not> excludes p (q @ ''/'' @ rest)))"
  by (auto simp: load_eq excludes_literal ancestors_append)

theorem exclude_patterns_spare_assets_witness:
  "\<exists>cfg. load Map.empty = Some cfg
     \<and> ''Thumbs.db'' \<in> set (excludePatterns cfg)
     \<and> ''_static'' \<in> set (templatesPath cfg) \<union> set (staticPath cfg)
     \<and> \<not> excludes ''Thumbs.db'' ''_static''
     \<and> \<not> excludes ''Thumbs.db'' (''_static'' @ ''/'' @ ''custom.css'')"
proof -
  from exclude_patterns_spare_assets [of Map.empty] obtain cfg where
    l: "load Map.empty = Some cfg" and
    a: "\<forall>p \<in> set (excludePatterns cfg).
          \<forall>q \<in> set (templatesPath cfg) \<union> set (staticPath cfg).
            \<not> excludes p q \<and> (\<forall>rest. \<not> excludes p (q @ ''/'' @ rest))"
    by blast
  from l have p: "''Thumbs.db'' \<in> set (excludePatterns cfg)"
    and q: "''_static'' \<in> set (templatesPath cfg) \<union> set (staticPath cfg)"
    by (auto simp: load_eq)
  from a p q have "\<not> excludes ''Thumbs.db'' ''_static''
      \<and> \<not> excludes ''Thumbs.db'' (''_static'' @ ''/'' @ ''custom.css'')"
    by blast
  with l p q show ?thesis by blast
qed

text \<open>
  C8. For every entry of the intersphinxMapping of the loaded configuration, the base URL
  is a syntactically valid URL.
\<close>

theorem intersphinx_base_urls_valid:
  "\<exists>cfg. load ns = Some cfg
     \<and> (\<forall>(name, base, inventory) \<in> set (intersphinxMapping cfg). valid_url base)"
  by (simp add: load_eq valid_url_def is_alpha_def is_digit_def is_unreserved_def
      is_url_char_def)

theorem intersphinx_base_urls_valid_witness:
  "\<exists>cfg. load Map.empty = Some cfg
     \<and> (''starlette'', ''https://www.starlette.io/'', None) \<in> set (intersphinxMapping cfg)
     \<and> valid_url ''https://www.starlette.io/''"
proof -
  from intersphinx_base_urls_valid [of Map.empty] obtain cfg where
    l: "load Map.empty = Some cfg" and
    a: "\<forall>(name, base, inventory) \<in> set (intersphinxMapping cfg). valid_url base"
    by blast
  from l have m: "(''starlette'', ''https://www.starlette.io/'', None)
      \<in> set (intersphinxMapping cfg)"
    by (auto simp: load_eq)
  from a m have "valid_url ''https://www.starlette.io/''"
    by blast
  with l m show ?thesis by blast
qed

text \<open>
  C10. Every label template of the extLinks mapping is the bare placeholder
  \<^verbatim>\<open>%s\<close>; so, for every tag of the mapping and every argument \<open>a\<close>, the label
  expands to \<open>a\<close> and the tag resolves to a target together with the label \<open>a\<close>.
\<close>

theorem label_is_argument:
  "\<exists>cfg. load ns = Some cfg
     \<and> (\<forall>(tag, url, label) \<in> set (extLinks cfg).
          label = ''%s'' \<and> expand label a = Inr a
          \<and> (\<exists>target. resolve (extLinks cfg) tag a = Inr (target, a)))"
  by (simp add: load_eq resolve_def expand_def)

theorem label_is_argument_witness:
  "\<exists>cfg. load Map.empty = Some cfg
     \<and> (''spec'', ''https://modelcontextprotocol.io/%s'', ''%s'') \<in> set (extLinks cfg)
     \<and> expand ''%s'' ''architecture'' = Inr ''architecture''
     \<and> resolve (extLinks cfg) ''spec'' ''architecture''
         = Inr (''https://modelcontextprotocol.io/architecture'', ''architecture'')"
proof -
  from label_is_argument [of Map.empty "''architecture''"] obtain cfg where
    l: "load Map.empty = Some cfg" and
    a: "\<forall>(tag, url, label) \<in> set (extLinks cfg).
          label = ''%s'' \<and> expand label ''architecture'' = Inr ''architecture''
          \<and> (\<exists>target. resolve (extLinks cfg) tag ''architecture''
                = Inr (target, ''architecture''))"
    by blast
  from l have m: "(''spec'', ''https://modelcontextprotocol.io/%s'', ''%s'')
      \<in> set (extLinks cfg)"
    by (auto simp: load_eq)
  from a m have e: "expand ''%s'' ''architecture'' = Inr ''architecture''"
    by blast
  from l have r: "resolve (extLinks cfg) ''spec'' ''architecture''
         = Inr (''https://modelcontextprotocol.io/architecture'', ''architecture'')"
    by (auto simp: load_eq resolve_def expand_def)
  from l m e r show ?thesis by blast
qed

end
